theory Spec2Isabelle
  imports Complex_Main
begin

section \<open>Python values of server.py\<close>

text \<open>
  A Python float is an IEEE double: a finite value, one of the two infinities, or NaN.
  Every finite double is a real number, so the finite values are embedded in \<open>real\<close>;
  the program itself only compares floats and passes them on, all arithmetic is done by
  the numeric libraries (see \<open>libs\<close> below).
\<close>

datatype pyfloat = FNum real | FPosInf | FNegInf | FNaN

text \<open>\<^verbatim>\<open>a < b\<close> and \<^verbatim>\<open>a > b\<close> on floats: false as soon as one side is NaN.\<close>

fun flt :: "pyfloat \<Rightarrow> pyfloat \<Rightarrow> bool" where
  "flt (FNum a) (FNum b) = (a < b)"
| "flt (FNum a) FPosInf = True"
| "flt FNegInf (FNum b) = True"
| "flt FNegInf FPosInf = True"
| "flt _ _ = False"

definition fgt :: "pyfloat \<Rightarrow> pyfloat \<Rightarrow> bool" where
  "fgt a b = flt b a"

fun positive_finite :: "pyfloat \<Rightarrow> bool" where
  "positive_finite (FNum a) = (0 < a)"
| "positive_finite _ = False"

text \<open>The value \<^verbatim>\<open>r.json()\<close> returns: what a JSON document decodes to in Python.
  A \<open>PDict\<close> lists the items of a dict, whose keys are distinct.\<close>

datatype pyval =
    PNone
  | PBool bool
  | PInt int
  | PFloat pyfloat
  | PStr string
  | PList "pyval list"
  | PDict "(string \<times> pyval) list"

datatype py_error =
    RequestException
  | HTTPError
  | JSONDecodeError
  | KeyError
  | TypeError
  | ValueError
  | OverflowError
  | IndexError

section \<open>The libraries the program calls\<close>

text \<open>
  server.py computes nothing numeric itself: it calls the builtin \<^verbatim>\<open>float\<close>, pandas,
  numpy and scikit-learn. These functions are not code of the repository; they are taken
  as parameters, each a function of its arguments that returns a value, and every theorem
  below holds for all of them.
  \<^item> \<open>float_of_str s\<close>: \<^verbatim>\<open>float(s)\<close> for a string, \<open>None\<close> when it raises ValueError;
  \<^item> \<open>float_of_int i\<close>: \<^verbatim>\<open>float(i)\<close> for an int, \<open>None\<close> when it raises OverflowError;
  \<^item> \<open>rolling_mean_last w xs\<close>: \<^verbatim>\<open>pd.Series(xs).rolling(window=w).mean().iloc[-1]\<close>;
  \<^item> \<open>np_sub\<close>, \<open>np_div\<close>: the elementwise \<^verbatim>\<open>-\<close> and \<^verbatim>\<open>/\<close> of float64 arrays;
  \<^item> \<open>iforest_outlier hist x\<close>: an \<^verbatim>\<open>IsolationForest(contamination=0.02, random_state=0)\<close>
    fitted on \<open>hist\<close> predicts \<open>-1\<close> for \<open>x\<close>.
\<close>

record libs =
  float_of_str :: "string \<Rightarrow> pyfloat option"
  float_of_int :: "int \<Rightarrow> pyfloat option"
  rolling_mean_last :: "nat \<Rightarrow> pyfloat list \<Rightarrow> pyfloat"
  np_sub :: "pyfloat \<Rightarrow> pyfloat \<Rightarrow> pyfloat"
  np_div :: "pyfloat \<Rightarrow> pyfloat \<Rightarrow> pyfloat"
  iforest_outlier :: "pyfloat list \<Rightarrow> pyfloat \<Rightarrow> bool"

section \<open>Configuration and the bounded buffers\<close>

definition PRICE_WINDOW :: nat where
  "PRICE_WINDOW = 200"

text \<open>
  \<^verbatim>\<open>deque(maxlen=n).append(x)\<close>: the element is added on the right, and when the deque
  is then longer than \<open>maxlen\<close> one element is removed on the left.
\<close>

definition deque_append :: "nat \<Rightarrow> 'a list \<Rightarrow> 'a \<Rightarrow> 'a list" where
  "deque_append maxlen d x =
     (let d' = d @ [x] in if maxlen < length d' then tl d' else d')"

text \<open>A sequence of appends, in order.\<close>

fun deque_appends :: "nat \<Rightarrow> 'a list \<Rightarrow> 'a list \<Rightarrow> 'a list" where
  "deque_appends maxlen d [] = d"
| "deque_appends maxlen d (x # xs) = deque_appends maxlen (deque_append maxlen d x) xs"

section \<open>fetch\_price\<close>

text \<open>
  What the HTTP request of one call does: \<^verbatim>\<open>requests.get\<close> raises (connection error,
  timeout, ...), or it returns a response with a status code and a body; the body is
  given as the value \<^verbatim>\<open>r.json()\<close> decodes it to, \<open>None\<close> when decoding raises.
\<close>

datatype http_outcome = TransportFailure | Response int "pyval option"

text \<open>\<^verbatim>\<open>r.raise_for_status()\<close> raises for the status codes 400 to 599.\<close>

definition raise_for_status :: "int \<Rightarrow> py_error + unit" where
  "raise_for_status status =
     (if 400 \<le> status \<and> status < 600 then Inl HTTPError else Inr ())"

text \<open>\<^verbatim>\<open>data[key]\<close> with a string key: only a dict that has the key yields a value.\<close>

fun subscript :: "pyval \<Rightarrow> string \<Rightarrow> py_error + pyval" where
  "subscript (PDict items) key =
     (case map_of items key of None \<Rightarrow> Inl KeyError | Some v \<Rightarrow> Inr v)"
| "subscript _ key = Inl TypeError"

text \<open>The builtin \<^verbatim>\<open>float(v)\<close>.\<close>

fun py_float :: "libs \<Rightarrow> pyval \<Rightarrow> py_error + pyfloat" where
  "py_float L (PFloat x) = Inr x"
| "py_float L (PBool b) = Inr (FNum (if b then 1 else 0))"
| "py_float L (PInt i) =
     (case float_of_int L i of None \<Rightarrow> Inl OverflowError | Some x \<Rightarrow> Inr x)"
| "py_float L (PStr s) =
     (case float_of_str L s of None \<Rightarrow> Inl ValueError | Some x \<Rightarrow> Inr x)"
| "py_float L _ = Inl TypeError"

text \<open>The body of the \<^verbatim>\<open>try\<close> block of \<^verbatim>\<open>fetch_price\<close>, with what it raises.\<close>

definition fetch_price_try :: "libs \<Rightarrow> http_outcome \<Rightarrow> py_error + pyfloat" where
  "fetch_price_try L h =
     (case h of
        TransportFailure \<Rightarrow> Inl RequestException
      | Response status body \<Rightarrow>
          (case raise_for_status status of
             Inl e \<Rightarrow> Inl e
           | Inr _ \<Rightarrow>
               (case body of
                  None \<Rightarrow> Inl JSONDecodeError
                | Some data \<Rightarrow>
                    (case subscript data ''price'' of
                       Inl e \<Rightarrow> Inl e
                     | Inr v \<Rightarrow> py_float L v))))"

text \<open>\<^verbatim>\<open>except Exception\<close>: whatever was raised, the function returns \<^verbatim>\<open>None\<close>.\<close>

definition fetch_price :: "libs \<Rightarrow> http_outcome \<Rightarrow> pyfloat option" where
  "fetch_price L h = (case fetch_price_try L h of Inl e \<Rightarrow> None | Inr price \<Rightarrow> Some price)"

section \<open>Signal logic\<close>

definition compute_moving_averages ::
  "libs \<Rightarrow> pyfloat list \<Rightarrow> nat \<Rightarrow> nat \<Rightarrow> pyfloat option \<times> pyfloat option" where
  "compute_moving_averages L series short long =
     (if length series < long then (None, None)
      else (Some (rolling_mean_last L short series), Some (rolling_mean_last L long series)))"

text \<open>\<^verbatim>\<open>clf.fit(X[:-1])\<close> trains on all but the last return, \<^verbatim>\<open>X[-1]\<close> is classified.\<close>

definition is_anomalous :: "libs \<Rightarrow> pyfloat list \<Rightarrow> bool" where
  "is_anomalous L returns_window =
     (if length returns_window < 30 then False
      else iforest_outlier L (butlast returns_window) (last returns_window))"

text \<open>\<^verbatim>\<open>np.diff(arr)\<close> is \<^verbatim>\<open>arr[1:] - arr[:-1]\<close>.\<close>

definition np_diff :: "libs \<Rightarrow> pyfloat list \<Rightarrow> pyfloat list" where
  "np_diff L arr = map2 (np_sub L) (tl arr) (butlast arr)"

definition simple_returns :: "libs \<Rightarrow> pyfloat list \<Rightarrow> pyfloat list" where
  "simple_returns L arr = map2 (np_div L) (np_diff L arr) (butlast arr)"

text \<open>\<^verbatim>\<open>xs[-n:]\<close>: the last \<open>n\<close> elements, all of them when there are fewer.\<close>

definition last_n :: "nat \<Rightarrow> 'a list \<Rightarrow> 'a list" where
  "last_n n xs = drop (length xs - n) xs"

text \<open>\<^verbatim>\<open>s.split()\<close>: the words of \<open>s\<close> between runs of whitespace. The strings split by
  the program are ASCII literals, so the ASCII whitespace characters are the ones that
  matter.\<close>

definition is_space :: "char \<Rightarrow> bool" where
  "is_space c = (c \<in> set [CHR '' '', CHR 0x09, CHR 0x0A, CHR 0x0B, CHR 0x0C, CHR 0x0D,
                           CHR 0x1C, CHR 0x1D, CHR 0x1E, CHR 0x1F])"

function py_split :: "string \<Rightarrow> string list" where
  "py_split s =
     (let s' = dropWhile is_space s
      in if s' = [] then []
         else takeWhile (\<lambda>c. \<not> is_space c) s' # py_split (dropWhile (\<lambda>c. \<not> is_space c) s'))"
  by pat_completeness auto
termination
proof (relation "measure length")
  fix s s' :: string
  assume s': "s' = dropWhile is_space s" and ne: "s' \<noteq> []"
  from ne s' have "\<not> is_space (hd s')"
    using hd_dropWhile by metis
  with ne have "length (dropWhile (\<lambda>c. \<not> is_space c) s') < length s'"
    by (cases s') (simp_all add: le_imp_less_Suc length_dropWhile_le)
  also have "length s' \<le> length s"
    unfolding s' by (rule length_dropWhile_le)
  finally show "(dropWhile (\<lambda>c. \<not> is_space c) s', s) \<in> measure length"
    by simp
qed simp

declare py_split.simps [simp del]

text \<open>The result of one evaluation (the dict \<^verbatim>\<open>evaluate_signals\<close> returns).\<close>

record eval_info =
  signal :: "string option"
  ma_short :: "pyfloat option"
  ma_long :: "pyfloat option"
  anomalous :: bool

text \<open>Lines 90 to 95: the crossover rule with the suppression of a repeated direction.\<close>

definition crossover :: "pyfloat option \<Rightarrow> pyfloat option \<Rightarrow> string option \<Rightarrow> string option" where
  "crossover mas mal lsig =
     (case (mas, mal) of
        (Some s, Some l) \<Rightarrow>
          if fgt s l \<and> lsig \<noteq> Some ''BUY'' then Some ''BUY''
          else if flt s l \<and> lsig \<noteq> Some ''SELL'' then Some ''SELL''
          else None
      | _ \<Rightarrow> None)"

text \<open>Lines 97 to 99.\<close>

definition mark_risky :: "string option \<Rightarrow> bool \<Rightarrow> string option" where
  "mark_risky sig anom =
     (case sig of
        Some s \<Rightarrow> if anom then Some (s @ '' (RISKY - anomaly)'') else Some s
      | None \<Rightarrow> None)"

text \<open>Lines 101 and 102: \<^verbatim>\<open>if signal: last_signal = signal.split()[0]\<close>. An empty string is
  false; indexing an empty list of words raises IndexError.\<close>

definition update_last_signal :: "string option \<Rightarrow> string option \<Rightarrow> py_error + string option" where
  "update_last_signal sig lsig =
     (case sig of
        None \<Rightarrow> Inr lsig
      | Some s \<Rightarrow>
          if s = [] then Inr lsig
          else (case py_split s of [] \<Rightarrow> Inl IndexError | w # _ \<Rightarrow> Inr (Some w)))"

text \<open>Lines 87 and 88: the simple returns of the prices, and the anomaly check on the last
  50 of them when there are at least 50.\<close>

definition window_anomalous :: "libs \<Rightarrow> pyfloat list \<Rightarrow> bool" where
  "window_anomalous L arr =
     (let returns = simple_returns L arr
      in if 50 \<le> length returns then is_anomalous L (last_n 50 returns) else False)"

text \<open>
  \<^verbatim>\<open>evaluate_signals\<close> reads the globals \<^verbatim>\<open>prices\<close> and \<^verbatim>\<open>last_signal\<close> and may assign
  \<^verbatim>\<open>last_signal\<close>: both are arguments here, and the new \<^verbatim>\<open>last_signal\<close> is returned
  beside the result. The result is \<open>None\<close> where the function returns \<^verbatim>\<open>None\<close>.
\<close>

definition evaluate_signals ::
  "libs \<Rightarrow> pyfloat list \<Rightarrow> string option \<Rightarrow> py_error + (eval_info option \<times> string option)" where
  "evaluate_signals L ps lsig =
     (if length ps < 21 then Inr (None, lsig)
      else
        let (mas, mal) = compute_moving_averages L ps 5 20;
            anom = window_anomalous L ps;
            sig = mark_risky (crossover mas mal lsig) anom
        in (case update_last_signal sig lsig of
              Inl e \<Rightarrow> Inl e
            | Inr lsig' \<Rightarrow>
                Inr (Some \<lparr>signal = sig, ma_short = mas, ma_long = mal, anomalous = anom\<rparr>,
                     lsig')))"

section \<open>The polling loop\<close>

record payload =
  pl_price :: pyfloat
  pl_timestamp :: pyfloat
  pl_signal :: "string option"
  pl_ma_short :: "pyfloat option"
  pl_ma_long :: "pyfloat option"
  pl_anomalous :: "bool option"

text \<open>Lines 120 to 127: each field is read from \<^verbatim>\<open>info\<close> if there is one.\<close>

definition make_payload :: "pyfloat \<Rightarrow> pyfloat \<Rightarrow> eval_info option \<Rightarrow> payload" where
  "make_payload price ts info =
     \<lparr>pl_price = price, pl_timestamp = ts,
      pl_signal = (case info of Some i \<Rightarrow> signal i | None \<Rightarrow> None),
      pl_ma_short = (case info of Some i \<Rightarrow> ma_short i | None \<Rightarrow> None),
      pl_ma_long = (case info of Some i \<Rightarrow> ma_long i | None \<Rightarrow> None),
      pl_anomalous = (case info of Some i \<Rightarrow> Some (anomalous i) | None \<Rightarrow> None)\<rparr>"

text \<open>The globals of the module, and the payloads handed to \<^verbatim>\<open>socketio.emit\<close> so far.\<close>

record server_state =
  prices :: "pyfloat list"
  timestamps :: "pyfloat list"
  last_signal :: "string option"
  emitted :: "payload list"

definition init_state :: server_state where
  "init_state = \<lparr>prices = [], timestamps = [], last_signal = None, emitted = []\<rparr>"

text \<open>
  One iteration of the loop of \<^verbatim>\<open>background_price_poller\<close>. Its inputs are what the HTTP
  request does in this iteration and what \<^verbatim>\<open>time.time()\<close> would return.
\<close>

definition poller_tick :: "libs \<Rightarrow> http_outcome \<times> pyfloat \<Rightarrow> server_state \<Rightarrow> py_error + server_state" where
  "poller_tick L inp st =
     (case fetch_price L (fst inp) of
        Some price \<Rightarrow>
          let ts = snd inp;
              ps = deque_append PRICE_WINDOW (prices st) price;
              tss = deque_append PRICE_WINDOW (timestamps st) ts
          in (case evaluate_signals L ps (last_signal st) of
                Inl e \<Rightarrow> Inl e
              | Inr (info, lsig') \<Rightarrow>
                  Inr (st\<lparr>prices := ps, timestamps := tss, last_signal := lsig',
                          emitted := emitted st @ [make_payload price ts info]\<rparr>))
      | None \<Rightarrow> Inr st)"

text \<open>
  The loop \<^verbatim>\<open>while True\<close> never returns; the state after its first iterations is
  computed from the list of their inputs. An exception ends the thread.
\<close>

fun background_price_poller ::
  "libs \<Rightarrow> (http_outcome \<times> pyfloat) list \<Rightarrow> server_state \<Rightarrow> py_error + server_state" where
  "background_price_poller L [] st = Inr st"
| "background_price_poller L (inp # inps) st =
     (case poller_tick L inp st of
        Inl e \<Rightarrow> Inl e
      | Inr st' \<Rightarrow> background_price_poller L inps st')"

text \<open>The prices the loop obtained in a list of iterations, in order.\<close>

definition fetched_prices :: "libs \<Rightarrow> (http_outcome \<times> pyfloat) list \<Rightarrow> pyfloat list" where
  "fetched_prices L inps = List.map_filter (\<lambda>inp. fetch_price L (fst inp)) inps"

text \<open>Two consecutive calls of \<^verbatim>\<open>evaluate_signals\<close> on the same prices, the second one
  starting from the \<^verbatim>\<open>last_signal\<close> the first one left; both results are returned.\<close>

definition evaluate_twice ::
  "libs \<Rightarrow> pyfloat list \<Rightarrow> string option \<Rightarrow> py_error + (eval_info option \<times> eval_info option)" where
  "evaluate_twice L ps lsig =
     (case evaluate_signals L ps lsig of
        Inl e \<Rightarrow> Inl e
      | Inr (r1, lsig1) \<Rightarrow>
          (case evaluate_signals L ps lsig1 of
             Inl e \<Rightarrow> Inl e
           | Inr (r2, lsig2) \<Rightarrow> Inr (r1, r2)))"

text \<open>The claim that two such calls give the same result.\<close>

definition same_result_twice :: "libs \<Rightarrow> pyfloat list \<Rightarrow> string option \<Rightarrow> bool" where
  "same_result_twice L ps lsig =
     (case evaluate_twice L ps lsig of Inl e \<Rightarrow> False | Inr (r1, r2) \<Rightarrow> r1 = r2)"

text \<open>A result carries the direction \<open>d\<close>: its signal is \<open>d\<close>, bare or marked as risky.\<close>

definition emits :: "string \<Rightarrow> eval_info \<Rightarrow> bool" where
  "emits d info = (signal info = Some d \<or> signal info = Some (d @ '' (RISKY - anomaly)''))"

section \<open>A library instance for examples\<close>

text \<open>
  To evaluate the program on concrete inputs the library parameters need values. This
  instance computes exactly on finite values: the rolling mean is the mean of the last
  \<open>w\<close> values (NaN when there are fewer, as pandas gives), differences and quotients
  are exact, a string is converted when it is a plain decimal literal, and a value is
  an outlier when it lies strictly outside the range of the history. A non-finite
  operand gives NaN. The examples below use small finite positive prices only.
\<close>

fun fnum_values :: "pyfloat list \<Rightarrow> real list option" where
  "fnum_values [] = Some []"
| "fnum_values (FNum a # xs) = (case fnum_values xs of None \<Rightarrow> None | Some rs \<Rightarrow> Some (a # rs))"
| "fnum_values (_ # xs) = None"

definition exact_mean :: "nat \<Rightarrow> pyfloat list \<Rightarrow> pyfloat" where
  "exact_mean w xs =
     (if w = 0 \<or> length xs < w then FNaN
      else (case fnum_values (last_n w xs) of
              None \<Rightarrow> FNaN
            | Some rs \<Rightarrow> FNum (sum_list rs / real w)))"

fun exact_sub :: "pyfloat \<Rightarrow> pyfloat \<Rightarrow> pyfloat" where
  "exact_sub (FNum a) (FNum b) = FNum (a - b)"
| "exact_sub _ _ = FNaN"

fun exact_div :: "pyfloat \<Rightarrow> pyfloat \<Rightarrow> pyfloat" where
  "exact_div (FNum a) (FNum b) = (if b = 0 then FNaN else FNum (a / b))"
| "exact_div _ _ = FNaN"

definition range_outlier :: "pyfloat list \<Rightarrow> pyfloat \<Rightarrow> bool" where
  "range_outlier hist x = (list_all (\<lambda>h. flt h x) hist \<or> list_all (\<lambda>h. flt x h) hist)"

definition is_digit :: "char \<Rightarrow> bool" where
  "is_digit c = (48 \<le> (of_char c :: nat) \<and> (of_char c :: nat) \<le> 57)"

fun digits_value :: "nat \<Rightarrow> string \<Rightarrow> nat option" where
  "digits_value acc [] = Some acc"
| "digits_value acc (c # cs) =
     (if is_digit c then digits_value (10 * acc + (of_char c - 48)) cs else None)"

definition decimal_of_str :: "string \<Rightarrow> pyfloat option" where
  "decimal_of_str s =
     (let ip = takeWhile (\<lambda>c. c \<noteq> CHR ''.'') s;
          fp = drop (Suc (length ip)) s
      in if ip = [] then None
         else (case digits_value 0 (ip @ fp) of
                 None \<Rightarrow> None
               | Some n \<Rightarrow> Some (FNum (real n / 10 ^ length fp))))"

definition exact_libs :: libs where
  "exact_libs =
     \<lparr>float_of_str = decimal_of_str,
      float_of_int = (\<lambda>i. Some (FNum (of_int i))),
      rolling_mean_last = exact_mean,
      np_sub = exact_sub,
      np_div = exact_div,
      iforest_outlier = range_outlier\<rparr>"

text \<open>Prices rising from 1 to 21; and 51 prices with two jumps: 25 at 100, 25 at 150 and
  a last one at 600, so that 48 of the 50 returns are 0, one is 0.5 and the last is 3.\<close>

definition rising21 :: "pyfloat list" where
  "rising21 = map (\<lambda>n. FNum (real n)) [1 ..< 22]"

definition two_jumps :: "pyfloat list" where
  "two_jumps = map (\<lambda>n. FNum (if n < 25 then 100 else if n < 50 then 150 else 600)) [0 ..< 51]"

text \<open>A response as the exchange sends it, and one whose price is a negative number.\<close>

definition ticker_response :: http_outcome where
  "ticker_response =
     Response 200 (Some (PDict [(''symbol'', PStr ''BTCUSDT''),
                                (''price'', PStr ''64000.01000000'')]))"

definition negative_response :: http_outcome where
  "negative_response = Response 200 (Some (PDict [(''price'', PFloat (FNum (- 1)))]))"

section \<open>Basic facts\<close>

lemma flt_asym: "flt a b \<Longrightarrow> \<not> flt b a"
  by (cases a; cases b) auto

lemma length_simple_returns: "length (simple_returns L arr) = length arr - 1"
  by (simp add: simple_returns_def np_diff_def)

lemma length_last_n: "length (last_n n xs) = min n (length xs)"
  by (simp add: last_n_def)

lemma py_split_literals:
  "py_split ''BUY'' = [''BUY'']"
  "py_split ''SELL'' = [''SELL'']"
  "py_split ''BUY (RISKY - anomaly)'' = [''BUY'', ''(RISKY'', ''-'', ''anomaly)'']"
  "py_split ''SELL (RISKY - anomaly)'' = [''SELL'', ''(RISKY'', ''-'', ''anomaly)'']"
  by (simp_all add: py_split.simps is_space_def)

lemma crossover_range:
  "crossover a b lsig = None \<or> crossover a b lsig = Some ''BUY'' \<or> crossover a b lsig = Some ''SELL''"
  by (simp add: crossover_def split: option.splits)

text \<open>After a directional signal the same averages give no candidate.\<close>

lemma crossover_repeat:
  assumes "crossover (Some s) (Some l) lsig = Some d"
  shows "crossover (Some s) (Some l) (Some d) = None"
proof (cases "fgt s l")
  case True
  then have "\<not> flt s l"
    using flt_asym by (auto simp: fgt_def)
  with True assms show ?thesis
    by (auto simp: crossover_def split: if_splits)
next
  case False
  with assms show ?thesis
    by (auto simp: crossover_def split: if_splits)
qed

text \<open>The assignment of lines 101 and 102 never raises on the signals of lines 90 to 99.\<close>

lemma update_after_mark:
  assumes "c = None \<or> c = Some ''BUY'' \<or> c = Some ''SELL''"
  shows "update_last_signal (mark_risky c anom) lsig =
           Inr (case c of None \<Rightarrow> lsig | Some d \<Rightarrow> Some d)"
  using assms by (auto simp: update_last_signal_def mark_risky_def py_split_literals)

lemma evaluate_signals_short:
  "length ps < 21 \<Longrightarrow> evaluate_signals L ps lsig = Inr (None, lsig)"
  by (simp add: evaluate_signals_def)

lemma evaluate_signals_long:
  assumes "21 \<le> length ps"
  shows "evaluate_signals L ps lsig =
           Inr (Some \<lparr>signal = mark_risky (crossover (Some (rolling_mean_last L 5 ps))
                                  (Some (rolling_mean_last L 20 ps)) lsig) (window_anomalous L ps),
                      ma_short = Some (rolling_mean_last L 5 ps),
                      ma_long = Some (rolling_mean_last L 20 ps),
                      anomalous = window_anomalous L ps\<rparr>,
                (case crossover (Some (rolling_mean_last L 5 ps))
                        (Some (rolling_mean_last L 20 ps)) lsig of
                   None \<Rightarrow> lsig | Some d \<Rightarrow> Some d))"
  using assms
  by (simp add: evaluate_signals_def compute_moving_averages_def Let_def
      update_after_mark [OF crossover_range])

text \<open>The example inputs, evaluated.\<close>

lemma length_rising21: "length rising21 = 21"
  by (simp add: rising21_def)

lemma length_two_jumps: "length two_jumps = 51"
  by (simp add: two_jumps_def)

lemma rising21_means:
  "rolling_mean_last exact_libs 5 rising21 = FNum 19"
  "rolling_mean_last exact_libs 20 rising21 = FNum (23 / 2)"
  by (simp_all add: exact_libs_def exact_mean_def rising21_def last_n_def upt_rec)

lemma two_jumps_means:
  "rolling_mean_last exact_libs 5 two_jumps = FNum 240"
  "rolling_mean_last exact_libs 20 two_jumps = FNum (345 / 2)"
  by (simp_all add: exact_libs_def exact_mean_def two_jumps_def last_n_def upt_rec)

lemma rising21_not_anomalous: "\<not> window_anomalous L rising21"
  by (simp add: window_anomalous_def length_simple_returns length_rising21)

lemma two_jumps_anomalous: "window_anomalous exact_libs two_jumps"
  by (simp add: window_anomalous_def simple_returns_def np_diff_def two_jumps_def last_n_def
      is_anomalous_def exact_libs_def range_outlier_def upt_rec Let_def)

section \<open>The crossover rule\<close>

text \<open>
  Claim C1. With at least 21 prices the evaluation returns a result, and this result
  carries the direction BUY (bare or marked as risky) exactly when the short average is
  greater than the long average and the last signal is not BUY; it carries SELL exactly
  when the short average is less than the long average and the last signal is not SELL;
  in every other case (equal or incomparable averages, a repeated direction) the signal
  is none.
\<close>

theorem crossover_signal_iff:
  assumes "21 \<le> length ps"
  shows "\<exists>info lsig'.
           evaluate_signals L ps lsig = Inr (Some info, lsig') \<and>
           (emits ''BUY'' info \<longleftrightarrow>
              fgt (rolling_mean_last L 5 ps) (rolling_mean_last L 20 ps) \<and> lsig \<noteq> Some ''BUY'') \<and>
           (emits ''SELL'' info \<longleftrightarrow>
              flt (rolling_mean_last L 5 ps) (rolling_mean_last L 20 ps) \<and> lsig \<noteq> Some ''SELL'') \<and>
           (\<not> (fgt (rolling_mean_last L 5 ps) (rolling_mean_last L 20 ps) \<and> lsig \<noteq> Some ''BUY'') \<and>
            \<not> (flt (rolling_mean_last L 5 ps) (rolling_mean_last L 20 ps) \<and> lsig \<noteq> Some ''SELL'')
              \<longrightarrow> signal info = None)"
proof -
  let ?s = "rolling_mean_last L 5 ps" and ?l = "rolling_mean_last L 20 ps"
  have excl: "\<not> (fgt ?s ?l \<and> flt ?s ?l)"
    using flt_asym by (auto simp: fgt_def)
  show ?thesis
    unfolding evaluate_signals_long [OF assms]
    using excl by (auto simp: emits_def mark_risky_def crossover_def)
qed

text \<open>C1 on the rising prices 1 to 21, no signal emitted before: the averages are 19 and
  11.5, and BUY is emitted.\<close>

theorem crossover_signal_iff_witness:
  "21 \<le> length rising21 \<and>
   (\<exists>info lsig'. evaluate_signals exact_libs rising21 None = Inr (Some info, lsig') \<and>
      emits ''BUY'' info \<and> \<not> emits ''SELL'' info)"
proof -
  have h: "21 \<le> length rising21"
    by (simp add: length_rising21)
  have g: "fgt (rolling_mean_last exact_libs 5 rising21) (rolling_mean_last exact_libs 20 rising21)"
      "\<not> flt (rolling_mean_last exact_libs 5 rising21) (rolling_mean_last exact_libs 20 rising21)"
    by (simp_all add: rising21_means fgt_def)
  from crossover_signal_iff [OF h, of exact_libs None] g h show ?thesis
    by auto
qed

section \<open>Insufficient history\<close>

text \<open>
  Claim C2. With fewer than 21 prices the evaluation raises nothing and returns no
  result, leaving the last signal as it was; the payload the loop builds from it has
  signal, ma\_short and ma\_long none.
\<close>

theorem insufficient_history:
  assumes "length ps < 21"
  shows "evaluate_signals L ps lsig = Inr (None, lsig) \<and>
         pl_signal (make_payload price ts None) = None \<and>
         pl_ma_short (make_payload price ts None) = None \<and>
         pl_ma_long (make_payload price ts None) = None"
  using assms by (simp add: evaluate_signals_short make_payload_def)

theorem insufficient_history_witness:
  "length [FNum 3, FNum 4] < 21 \<and>
   evaluate_signals exact_libs [FNum 3, FNum 4] (Some ''SELL'') = Inr (None, Some ''SELL'') \<and>
   pl_signal (make_payload (FNum 4) (FNum 0) None) = None \<and>
   pl_ma_short (make_payload (FNum 4) (FNum 0) None) = None \<and>
   pl_ma_long (make_payload (FNum 4) (FNum 0) None) = None"
proof -
  have h: "length [FNum 3, FNum 4] < 21"
    by simp
  from insufficient_history [OF h, of exact_libs "Some ''SELL''" "FNum 4" "FNum 0"] h
  show ?thesis
    by simp
qed

section \<open>The anomaly check\<close>

text \<open>
  Claim C5. On a window of fewer than 30 returns \<^verbatim>\<open>is_anomalous\<close> returns False,
  whatever the outlier model would say.
\<close>

theorem short_window_not_anomalous:
  assumes "length returns_window < 30"
  shows "is_anomalous L returns_window = False"
  using assms by (simp add: is_anomalous_def)

text \<open>C5 on three returns whose last one the example model would call an outlier.\<close>

theorem short_window_not_anomalous_witness:
  "length [FNum 0, FNum 0, FNum 5] < 30 \<and>
   is_anomalous exact_libs [FNum 0, FNum 0, FNum 5] = False \<and>
   iforest_outlier exact_libs [FNum 0, FNum 0] (FNum 5)"
proof -
  have h: "length [FNum 0, FNum 0, FNum 5] < 30"
    by simp
  from short_window_not_anomalous [OF h, of exact_libs] h show ?thesis
    by (simp add: exact_libs_def range_outlier_def)
qed

section \<open>The averages are defined\<close>

text \<open>
  Claim C10. With at least 21 prices \<^verbatim>\<open>compute_moving_averages\<close> returns two values, not
  None, so the crossover rule is applied to them (the branch for a missing average is
  not taken), and the result of the evaluation carries both averages.
\<close>

theorem averages_defined:
  assumes "21 \<le> length ps"
  shows "compute_moving_averages L ps 5 20 =
           (Some (rolling_mean_last L 5 ps), Some (rolling_mean_last L 20 ps)) \<and>
         (\<exists>info lsig'.
            evaluate_signals L ps lsig = Inr (Some info, lsig') \<and>
            ma_short info = Some (rolling_mean_last L 5 ps) \<and>
            ma_long info = Some (rolling_mean_last L 20 ps) \<and>
            signal info =
              mark_risky (crossover (Some (rolling_mean_last L 5 ps))
                            (Some (rolling_mean_last L 20 ps)) lsig) (window_anomalous L ps))"
  using assms
  by (simp add: evaluate_signals_long compute_moving_averages_def)

theorem averages_defined_witness:
  "21 \<le> length rising21 \<and>
   compute_moving_averages exact_libs rising21 5 20 = (Some (FNum 19), Some (FNum (23 / 2))) \<and>
   (\<exists>info lsig'.
      evaluate_signals exact_libs rising21 (Some ''BUY'') = Inr (Some info, lsig') \<and>
      ma_short info = Some (FNum 19) \<and> ma_long info = Some (FNum (23 / 2)))"
proof -
  have h: "21 \<le> length rising21"
    by (simp add: length_rising21)
  from averages_defined [OF h, of exact_libs "Some ''BUY''"] h show ?thesis
    by (auto simp: rising21_means)
qed

section \<open>The bounded buffer\<close>

lemma length_deque_append:
  "length d \<le> n \<Longrightarrow> length (deque_append n d x) \<le> n"
  by (auto simp: deque_append_def Let_def)

lemma deque_append_last_n:
  "deque_append n d x = last_n n (d @ [x])" if "length d \<le> n"
proof (cases "n < Suc (length d)")
  case True
  with that have "n = length d"
    by simp
  then show ?thesis
    by (cases d) (simp_all add: deque_append_def last_n_def drop_Suc)
next
  case False
  then show ?thesis
    by (simp add: deque_append_def last_n_def)
qed

lemma last_n_append_last_n:
  "last_n n (last_n n ys @ xs) = last_n n (ys @ xs)"
  by (cases "length ys \<le> n") (auto simp: last_n_def add.commute)

lemma deque_appends_last_n:
  "length d \<le> n \<Longrightarrow> deque_appends n d xs = last_n n (d @ xs)"
proof (induction xs arbitrary: d)
  case Nil
  then show ?case
    by (simp add: last_n_def)
next
  case (Cons x xs)
  have "deque_appends n d (x # xs) = last_n n (last_n n (d @ [x]) @ xs)"
    using Cons.IH [OF length_deque_append [OF Cons.prems]]
    by (simp add: deque_append_last_n [OF Cons.prems])
  then show ?case
    by (simp add: last_n_append_last_n)
qed

text \<open>The price buffer of the loop is such a deque of capacity \<open>PRICE_WINDOW\<close>: it
  receives the fetched prices, one append each.\<close>

lemma poller_tick_prices:
  assumes "poller_tick L inp st = Inr st'"
  shows "prices st' = deque_appends PRICE_WINDOW (prices st) (fetched_prices L [inp])"
  using assms
  by (auto simp: poller_tick_def fetched_prices_def List.map_filter_simps Let_def
      split: option.splits sum.splits prod.splits)

lemma background_price_poller_prices:
  assumes "background_price_poller L inps st = Inr st'"
  shows "prices st' = deque_appends PRICE_WINDOW (prices st) (fetched_prices L inps)"
  using assms
proof (induction inps arbitrary: st)
  case Nil
  then show ?case
    by (simp add: fetched_prices_def List.map_filter_simps)
next
  case (Cons inp inps)
  then obtain st1 where st1: "poller_tick L inp st = Inr st1"
    and run: "background_price_poller L inps st1 = Inr st'"
    by (auto split: sum.splits)
  from poller_tick_prices [OF st1] Cons.IH [OF run] show ?case
    by (simp add: fetched_prices_def List.map_filter_simps split: option.splits)
qed

text \<open>
  Claim C4. After more than \<open>n\<close> appends to a deque of capacity \<open>n\<close> (empty at the
  start, or holding any contents within its capacity) its length is \<open>n\<close> and its
  contents are the last \<open>n\<close> appended values in the order they arrived; an append to a
  full deque removes the oldest element.
\<close>

theorem rolling_series_keeps_last:
  assumes "n < length xs" and "length d \<le> n"
  shows "length (deque_appends n d xs) = n \<and>
         deque_appends n d xs = drop (length xs - n) xs \<and>
         (\<forall>full x. length full = n \<longrightarrow> deque_append n full x = tl (full @ [x]))"
proof -
  from assms have "deque_appends n d xs = drop (length xs - n) xs"
    by (simp add: deque_appends_last_n last_n_def)
  moreover from assms have "length (drop (length xs - n) xs) = n"
    by simp
  ultimately show ?thesis
    by (simp add: deque_append_def)
qed

text \<open>C4 with capacity 3 and five appends.\<close>

theorem rolling_series_keeps_last_witness:
  "(3::nat) < length [1, 2, 3, 4, 5 :: int] \<and>
   deque_appends 3 [] [1, 2, 3, 4, 5 :: int] = [3, 4, 5] \<and>
   deque_append 3 [1, 2, 3 :: int] 4 = [2, 3, 4]"
proof -
  have h: "(3::nat) < length [1, 2, 3, 4, 5 :: int]" "length ([] :: int list) \<le> 3"
    by simp_all
  from rolling_series_keeps_last [OF h] h show ?thesis
    by (simp add: deque_append_def)
qed

section \<open>Two evaluations of the same prices\<close>

text \<open>
  Claim C3 as stated fails: on the rising prices 1 to 21 with no signal emitted before,
  the first evaluation emits BUY and records it, and the second one emits nothing.
\<close>

theorem same_result_twice_counterexample:
  "evaluate_twice exact_libs rising21 None =
     Inr (Some \<lparr>signal = Some ''BUY'', ma_short = Some (FNum 19),
                ma_long = Some (FNum (23 / 2)), anomalous = False\<rparr>,
          Some \<lparr>signal = None, ma_short = Some (FNum 19),
                ma_long = Some (FNum (23 / 2)), anomalous = False\<rparr>) \<and>
   \<not> same_result_twice exact_libs rising21 None"
proof -
  have c1: "crossover (Some (FNum 19)) (Some (FNum (23 / 2))) None = Some ''BUY''"
    by (simp add: crossover_def fgt_def)
  have c2: "crossover (Some (FNum 19)) (Some (FNum (23 / 2))) (Some ''BUY'') = None"
    by (simp add: crossover_def fgt_def)
  have e: "evaluate_twice exact_libs rising21 None =
     Inr (Some \<lparr>signal = Some ''BUY'', ma_short = Some (FNum 19),
                ma_long = Some (FNum (23 / 2)), anomalous = False\<rparr>,
          Some \<lparr>signal = None, ma_short = Some (FNum 19),
                ma_long = Some (FNum (23 / 2)), anomalous = False\<rparr>)"
    by (simp add: evaluate_twice_def evaluate_signals_long length_rising21 rising21_means
        rising21_not_anomalous c1 c2 mark_risky_def)
  then show ?thesis
    by (simp add: same_result_twice_def)
qed

text \<open>
  Claim C3, amended. Two consecutive evaluations of the same prices never raise and give
  the same averages and the same anomaly flag. They give the same result exactly when
  the first one emits no signal; when the first one emits a signal, it records the
  direction and the second one emits none.
\<close>

theorem evaluate_twice_results:
  "\<exists>r1 r2.
     evaluate_twice L ps lsig = Inr (r1, r2) \<and>
     (r1 = None \<and> r2 = None \<or>
      (\<exists>i1 i2. r1 = Some i1 \<and> r2 = Some i2 \<and>
         ma_short i2 = ma_short i1 \<and> ma_long i2 = ma_long i1 \<and> anomalous i2 = anomalous i1 \<and>
         (signal i1 = None \<longrightarrow> i2 = i1) \<and>
         (signal i1 \<noteq> None \<longrightarrow> signal i2 = None))) \<and>
     (same_result_twice L ps lsig \<longleftrightarrow> (\<forall>i1. r1 = Some i1 \<longrightarrow> signal i1 = None))"
proof (cases "length ps < 21")
  case True
  then show ?thesis
    by (simp add: evaluate_twice_def same_result_twice_def evaluate_signals_short)
next
  case False
  then have long: "21 \<le> length ps"
    by simp
  let ?c = "crossover (Some (rolling_mean_last L 5 ps)) (Some (rolling_mean_last L 20 ps))"
  show ?thesis
  proof (cases "?c lsig")
    case None
    then show ?thesis
      by (simp add: evaluate_twice_def same_result_twice_def evaluate_signals_long [OF long]
          mark_risky_def)
  next
    case (Some d)
    then have "?c (Some d) = None"
      by (rule crossover_repeat)
    with Some show ?thesis
      by (simp add: evaluate_twice_def same_result_twice_def evaluate_signals_long [OF long]
          mark_risky_def)
  qed
qed

text \<open>The amended C3 on the rising prices: the results differ in the signal only.\<close>

theorem evaluate_twice_results_witness:
  "\<exists>r1 r2.
     evaluate_twice exact_libs rising21 None = Inr (r1, r2) \<and>
     (\<exists>i1 i2. r1 = Some i1 \<and> r2 = Some i2 \<and>
        ma_short i2 = ma_short i1 \<and> ma_long i2 = ma_long i1 \<and> anomalous i2 = anomalous i1 \<and>
        signal i1 \<noteq> None \<and> signal i2 = None)"
proof -
  have e: "evaluate_signals exact_libs rising21 None =
             Inr (Some \<lparr>signal = Some ''BUY'', ma_short = Some (FNum 19),
                        ma_long = Some (FNum (23 / 2)), anomalous = False\<rparr>, Some ''BUY'')"
    by (simp add: evaluate_signals_long length_rising21 rising21_means rising21_not_anomalous
        mark_risky_def crossover_def fgt_def)
  from evaluate_twice_results [of exact_libs rising21 None] e show ?thesis
    by (auto simp: evaluate_twice_def split: sum.splits prod.splits)
qed

section \<open>The risky qualifier\<close>

text \<open>
  Claim C6 as stated fails in the text of the qualifier: on the prices with two jumps
  the averages are 240 and 172.5, the candidate is BUY, and the last return lies far
  outside the 49 returns before it, an anomaly for the example model; the emitted signal
  is the direction followed by \<^verbatim>\<open> (RISKY - anomaly)\<close>, not by \<^verbatim>\<open>-RISKY\<close>.
\<close>

theorem risky_qualifier_counterexample:
  "evaluate_signals exact_libs two_jumps None =
     Inr (Some \<lparr>signal = Some ''BUY (RISKY - anomaly)'', ma_short = Some (FNum 240),
                ma_long = Some (FNum (345 / 2)), anomalous = True\<rparr>,
          Some ''BUY'') \<and>
   ''BUY (RISKY - anomaly)'' \<noteq> ''BUY'' @ ''-RISKY''"
  by (simp add: evaluate_signals_long length_two_jumps two_jumps_means
      two_jumps_anomalous mark_risky_def crossover_def fgt_def)

text \<open>
  Claim C6, amended. With at least 21 prices the anomaly flag of the result is the
  anomaly check on the last 50 returns (a window of exactly 50), and it is false when
  there are fewer than 50 returns (there is one return less than there are prices).
  Whenever the crossover rule
  gives a candidate direction, the signal is emitted: the bare direction when the flag is
  false, the direction followed by \<^verbatim>\<open> (RISKY - anomaly)\<close> when it is true.
\<close>

theorem risky_qualifier:
  assumes "21 \<le> length ps"
  shows "\<exists>info lsig'.
           evaluate_signals L ps lsig = Inr (Some info, lsig') \<and>
           length (simple_returns L ps) = length ps - 1 \<and>
           anomalous info =
             (50 \<le> length (simple_returns L ps) \<and>
              is_anomalous L (last_n 50 (simple_returns L ps))) \<and>
           (length (simple_returns L ps) < 50 \<longrightarrow> \<not> anomalous info) \<and>
           (50 \<le> length (simple_returns L ps) \<longrightarrow>
              length (last_n 50 (simple_returns L ps)) = 50) \<and>
           (\<forall>d. crossover (Some (rolling_mean_last L 5 ps))
                   (Some (rolling_mean_last L 20 ps)) lsig = Some d \<longrightarrow>
                signal info = Some (if anomalous info then d @ '' (RISKY - anomaly)'' else d))"
  unfolding evaluate_signals_long [OF assms]
  by (auto simp: window_anomalous_def Let_def mark_risky_def length_simple_returns
      length_last_n)

text \<open>The amended C6 on the prices with two jumps: anomalous, and BUY is emitted with
  the qualifier.\<close>

theorem risky_qualifier_witness:
  "21 \<le> length two_jumps \<and>
   (\<exists>info lsig'.
      evaluate_signals exact_libs two_jumps None = Inr (Some info, lsig') \<and>
      length (simple_returns exact_libs two_jumps) = 50 \<and>
      anomalous info \<and>
      signal info = Some ''BUY (RISKY - anomaly)'')"
proof -
  have h: "21 \<le> length two_jumps"
    by (simp add: length_two_jumps)
  have c: "crossover (Some (rolling_mean_last exact_libs 5 two_jumps))
             (Some (rolling_mean_last exact_libs 20 two_jumps)) None = Some ''BUY''"
    by (simp add: two_jumps_means crossover_def fgt_def)
  have a: "\<And>info lsig'. evaluate_signals exact_libs two_jumps None = Inr (Some info, lsig')
             \<Longrightarrow> anomalous info"
    using two_jumps_anomalous by (auto simp: evaluate_signals_long [OF h])
  from risky_qualifier [OF h, of exact_libs None] c a h show ?thesis
    by (auto simp: length_two_jumps)
qed

section \<open>The last signal\<close>

lemma evaluate_signals_last_signal:
  "\<exists>r lsig'. evaluate_signals L ps lsig = Inr (r, lsig') \<and>
     (lsig' = lsig \<or> lsig' = Some ''BUY'' \<or> lsig' = Some ''SELL'')"
proof (cases "length ps < 21")
  case True
  then show ?thesis
    by (simp add: evaluate_signals_short)
next
  case False
  then have long: "21 \<le> length ps"
    by simp
  show ?thesis
    using crossover_range [of "Some (rolling_mean_last L 5 ps)" "Some (rolling_mean_last L 20 ps)" lsig]
    by (auto simp: evaluate_signals_long [OF long])
qed

lemma poller_tick_last_signal:
  "\<exists>st'. poller_tick L inp st = Inr st' \<and>
     (last_signal st' = last_signal st \<or> last_signal st' = Some ''BUY'' \<or>
      last_signal st' = Some ''SELL'')"
proof (cases "fetch_price L (fst inp)")
  case None
  then show ?thesis
    by (simp add: poller_tick_def)
next
  case (Some price)
  obtain r lsig' where
    "evaluate_signals L (deque_append PRICE_WINDOW (prices st) price) (last_signal st) = Inr (r, lsig')"
    "lsig' = last_signal st \<or> lsig' = Some ''BUY'' \<or> lsig' = Some ''SELL''"
    using evaluate_signals_last_signal by blast
  with Some show ?thesis
    by (auto simp: poller_tick_def Let_def)
qed

lemma poller_last_signal_invariant:
  assumes "last_signal st \<in> {None, Some ''BUY'', Some ''SELL''}"
  shows "\<exists>st'. background_price_poller L inps st = Inr st' \<and>
           last_signal st' \<in> {None, Some ''BUY'', Some ''SELL''}"
  using assms
proof (induction inps arbitrary: st)
  case Nil
  then show ?case
    by simp
next
  case (Cons inp inps)
  obtain st1 where st1: "poller_tick L inp st = Inr st1"
    "last_signal st1 = last_signal st \<or> last_signal st1 = Some ''BUY'' \<or>
     last_signal st1 = Some ''SELL''"
    using poller_tick_last_signal by blast
  with Cons.prems have "last_signal st1 \<in> {None, Some ''BUY'', Some ''SELL''}"
    by auto
  from Cons.IH [OF this] st1(1) show ?case
    by simp
qed

text \<open>
  Claim C7. The last signal is none at startup. An evaluation never raises; it leaves the
  last signal unchanged when it returns no result or a result without signal, and sets
  it to the bare direction, BUY or SELL, when the result carries that direction (bare or
  marked as risky); there is no other case. Hence after any number of iterations of the
  polling loop the last signal is none, BUY or SELL.
\<close>

theorem last_signal_lifecycle:
  "last_signal init_state = None \<and>
   (\<exists>r lsig'.
      evaluate_signals L ps lsig = Inr (r, lsig') \<and>
      (case r of
         None \<Rightarrow> lsig' = lsig
       | Some info \<Rightarrow>
           (signal info = None \<or> emits ''BUY'' info \<or> emits ''SELL'' info) \<and>
           (signal info = None \<longrightarrow> lsig' = lsig) \<and>
           (emits ''BUY'' info \<longrightarrow> lsig' = Some ''BUY'') \<and>
           (emits ''SELL'' info \<longrightarrow> lsig' = Some ''SELL''))) \<and>
   (\<exists>st. background_price_poller L inps init_state = Inr st \<and>
      last_signal st \<in> {None, Some ''BUY'', Some ''SELL''})"
proof -
  have init: "last_signal init_state = None"
    by (simp add: init_state_def)
  have step: "\<exists>r lsig'.
      evaluate_signals L ps lsig = Inr (r, lsig') \<and>
      (case r of
         None \<Rightarrow> lsig' = lsig
       | Some info \<Rightarrow>
           (signal info = None \<or> emits ''BUY'' info \<or> emits ''SELL'' info) \<and>
           (signal info = None \<longrightarrow> lsig' = lsig) \<and>
           (emits ''BUY'' info \<longrightarrow> lsig' = Some ''BUY'') \<and>
           (emits ''SELL'' info \<longrightarrow> lsig' = Some ''SELL''))"
  proof (cases "length ps < 21")
    case True
    then show ?thesis
      by (simp add: evaluate_signals_short)
  next
    case False
    then have long: "21 \<le> length ps"
      by simp
    show ?thesis
      using crossover_range [of "Some (rolling_mean_last L 5 ps)"
          "Some (rolling_mean_last L 20 ps)" lsig]
      by (cases "window_anomalous L ps")
        (auto simp: evaluate_signals_long [OF long] emits_def mark_risky_def)
  qed
  have run: "\<exists>st. background_price_poller L inps init_state = Inr st \<and>
      last_signal st \<in> {None, Some ''BUY'', Some ''SELL''}"
    by (rule poller_last_signal_invariant) (simp add: init)
  from init step run show ?thesis
    by blast
qed

text \<open>C7 on the prices with two jumps, where the emitted signal is marked as risky and
  the last signal becomes the bare BUY.\<close>

theorem last_signal_lifecycle_witness:
  "last_signal init_state = None \<and>
   (\<exists>info. evaluate_signals exact_libs two_jumps None = Inr (Some info, Some ''BUY'') \<and>
      signal info = Some ''BUY (RISKY - anomaly)'') \<and>
   (\<exists>st. background_price_poller exact_libs [(ticker_response, FNum 0)] init_state = Inr st \<and>
      last_signal st \<in> {None, Some ''BUY'', Some ''SELL''})"
proof -
  have e: "evaluate_signals exact_libs two_jumps None =
     Inr (Some \<lparr>signal = Some ''BUY (RISKY - anomaly)'', ma_short = Some (FNum 240),
                ma_long = Some (FNum (345 / 2)), anomalous = True\<rparr>,
          Some ''BUY'')"
    by (simp add: evaluate_signals_long length_two_jumps two_jumps_means
        two_jumps_anomalous mark_risky_def crossover_def fgt_def)
  from last_signal_lifecycle [of exact_libs two_jumps None "[(ticker_response, FNum 0)]"] e
  show ?thesis
    by simp
qed

section \<open>Ticks without a price\<close>

lemma poller_tick_skip:
  "fetch_price L (fst inp) = None \<Longrightarrow> poller_tick L inp st = Inr st"
  by (simp add: poller_tick_def)

text \<open>
  Claim C8. Iterations in which \<^verbatim>\<open>fetch_price\<close> returns None leave the whole state as it
  was: the price and timestamp buffers, the last signal (nothing was evaluated) and the
  list of emitted payloads (nothing was emitted). The loop goes on: the iterations that
  follow run from the unchanged state.
\<close>

theorem failed_fetch_skips_tick:
  assumes "\<forall>inp \<in> set inps. fetch_price L (fst inp) = None"
  shows "background_price_poller L inps st = Inr st \<and>
         background_price_poller L (inps @ rest) st = background_price_poller L rest st"
  using assms by (induction inps) (simp_all add: poller_tick_skip)

text \<open>C8 on three failed fetches in a row (no connection, status 503, a body without a
  price), followed by a successful one: one payload is emitted, by the last iteration.\<close>

theorem failed_fetch_skips_tick_witness:
  "fetch_price exact_libs TransportFailure = None \<and>
   fetch_price exact_libs (Response 503 None) = None \<and>
   fetch_price exact_libs (Response 200 (Some (PDict []))) = None \<and>
   background_price_poller exact_libs
     [(TransportFailure, FNum 0), (Response 503 None, FNum 5),
      (Response 200 (Some (PDict [])), FNum 10)] init_state = Inr init_state \<and>
   background_price_poller exact_libs
     ([(TransportFailure, FNum 0), (Response 503 None, FNum 5),
       (Response 200 (Some (PDict [])), FNum 10)] @ [(ticker_response, FNum 15)]) init_state =
     Inr \<lparr>prices = [FNum (6400001 / 100)], timestamps = [FNum 15], last_signal = None,
          emitted = [\<lparr>pl_price = FNum (6400001 / 100), pl_timestamp = FNum 15,
                      pl_signal = None, pl_ma_short = None, pl_ma_long = None,
                      pl_anomalous = None\<rparr>]\<rparr>"
proof -
  have h: "\<forall>inp \<in> set [(TransportFailure, FNum 0), (Response 503 None, FNum 5),
                         (Response 200 (Some (PDict [])), FNum 10)].
             fetch_price exact_libs (fst inp) = None"
    by (simp add: fetch_price_def fetch_price_try_def raise_for_status_def)
  have f: "fetch_price exact_libs ticker_response = Some (FNum (6400001 / 100))"
    by (simp add: fetch_price_def fetch_price_try_def raise_for_status_def ticker_response_def
        exact_libs_def decimal_of_str_def is_digit_def)
  have t: "background_price_poller exact_libs [(ticker_response, FNum 15)] init_state =
     Inr \<lparr>prices = [FNum (6400001 / 100)], timestamps = [FNum 15], last_signal = None,
          emitted = [\<lparr>pl_price = FNum (6400001 / 100), pl_timestamp = FNum 15,
                      pl_signal = None, pl_ma_short = None, pl_ma_long = None,
                      pl_anomalous = None\<rparr>]\<rparr>"
    by (simp add: poller_tick_def f init_state_def deque_append_def PRICE_WINDOW_def
        evaluate_signals_short make_payload_def Let_def)
  from failed_fetch_skips_tick [OF h, of init_state "[(ticker_response, FNum 15)]"] h t
  show ?thesis
    by simp
qed

section \<open>What fetch\_price returns\<close>

text \<open>
  Claim C9 as stated fails: a response with status 200 whose body is the JSON object
  with the number -1.0 under the key price makes \<^verbatim>\<open>fetch_price\<close> return -1.0, which is
  not a positive number.
\<close>

theorem fetch_price_counterexample:
  "fetch_price exact_libs negative_response = Some (FNum (- 1)) \<and>
   \<not> positive_finite (FNum (- 1))"
  by (simp add: fetch_price_def fetch_price_try_def raise_for_status_def negative_response_def)

text \<open>
  Claim C9, amended. For every outcome of the HTTP request \<^verbatim>\<open>fetch_price\<close> returns None
  or a float and never raises. It returns None exactly when a step of the \<^verbatim>\<open>try\<close> block
  raises: the request itself, a status from 400 to 599, a body that does not decode, a
  decoded value without the key price, or a price that does not convert to a float.
  Otherwise it returns the converted float as it is: no sign or finiteness check is
  made, so a body whose price is the float \<open>x\<close> gives \<open>x\<close>.
\<close>

theorem fetch_price_result:
  "(fetch_price L h = None \<longleftrightarrow> (\<exists>e. fetch_price_try L h = Inl e)) \<and>
   fetch_price L TransportFailure = None \<and>
   (400 \<le> status \<and> status < 600 \<longrightarrow> fetch_price L (Response status body) = None) \<and>
   fetch_price L (Response status None) = None \<and>
   (\<forall>e. subscript data ''price'' = Inl e \<longrightarrow>
      fetch_price L (Response status (Some data)) = None) \<and>
   (\<forall>v e. subscript data ''price'' = Inr v \<and> py_float L v = Inl e \<longrightarrow>
      fetch_price L (Response status (Some data)) = None) \<and>
   (\<forall>p. fetch_price L h = Some p \<longrightarrow>
      (\<exists>st d v. h = Response st (Some d) \<and> \<not> (400 \<le> st \<and> st < 600) \<and>
         subscript d ''price'' = Inr v \<and> py_float L v = Inr p)) \<and>
   (\<not> (400 \<le> status \<and> status < 600) \<longrightarrow>
      fetch_price L (Response status (Some (PDict [(''price'', PFloat x)]))) = Some x)"
proof -
  have none_iff: "fetch_price L h = None \<longleftrightarrow> (\<exists>e. fetch_price_try L h = Inl e)"
    by (simp add: fetch_price_def split: sum.splits)
  have some: "\<forall>p. fetch_price L h = Some p \<longrightarrow>
      (\<exists>st d v. h = Response st (Some d) \<and> \<not> (400 \<le> st \<and> st < 600) \<and>
         subscript d ''price'' = Inr v \<and> py_float L v = Inr p)"
    by (auto simp: fetch_price_def fetch_price_try_def raise_for_status_def
        split: sum.splits http_outcome.splits option.splits if_splits)
  have rest: "fetch_price L TransportFailure = None"
    "400 \<le> status \<and> status < 600 \<longrightarrow> fetch_price L (Response status body) = None"
    "fetch_price L (Response status None) = None"
    "\<forall>e. subscript data ''price'' = Inl e \<longrightarrow>
       fetch_price L (Response status (Some data)) = None"
    "\<forall>v e. subscript data ''price'' = Inr v \<and> py_float L v = Inl e \<longrightarrow>
       fetch_price L (Response status (Some data)) = None"
    "\<not> (400 \<le> status \<and> status < 600) \<longrightarrow>
       fetch_price L (Response status (Some (PDict [(''price'', PFloat x)]))) = Some x"
    by (auto simp: fetch_price_def fetch_price_try_def raise_for_status_def split: sum.splits)
  from none_iff some rest show ?thesis
    by blast
qed

text \<open>The amended C9 on a response as the exchange sends it, on a status 404, on a body
  whose price is not a number, and on a body whose price is the float infinity.\<close>

theorem fetch_price_result_witness:
  "fetch_price exact_libs ticker_response = Some (FNum (6400001 / 100)) \<and>
   (400 \<le> (404::int) \<and> (404::int) < 600) \<and>
   fetch_price exact_libs (Response 404 None) = None \<and>
   subscript (PDict [(''price'', PStr ''n/a'')]) ''price'' = Inr (PStr ''n/a'') \<and>
   py_float exact_libs (PStr ''n/a'') = Inl ValueError \<and>
   fetch_price exact_libs (Response 200 (Some (PDict [(''price'', PStr ''n/a'')]))) = None \<and>
   fetch_price exact_libs (Response 200 (Some (PDict [(''price'', PFloat FPosInf)]))) = Some FPosInf"
proof -
  have f: "fetch_price exact_libs ticker_response = Some (FNum (6400001 / 100))"
    by (simp add: fetch_price_def fetch_price_try_def raise_for_status_def ticker_response_def
        exact_libs_def decimal_of_str_def is_digit_def)
  have v: "subscript (PDict [(''price'', PStr ''n/a'')]) ''price'' = Inr (PStr ''n/a'')"
      "py_float exact_libs (PStr ''n/a'') = Inl ValueError"
    by (simp_all add: exact_libs_def decimal_of_str_def is_digit_def)
  from fetch_price_result [of exact_libs ticker_response 404 None
      "PDict [(''price'', PStr ''n/a'')]" FPosInf]
    fetch_price_result [of exact_libs ticker_response 200 None
      "PDict [(''price'', PStr ''n/a'')]" FPosInf] f v
  show ?thesis
    by simp
qed

end
